theory Spec2Isabelle
  imports Complex_Main "HOL-Library.Sublist"
begin

section \<open>The Downloader (src/unnamed/part_002)\<close>

subsection \<open>Errors and upstream replies\<close>

text \<open>
  An error object as the Downloader inspects it: \<open>err.code\<close> (set by the HTTP client,
  \<open>ECONNABORTED\<close> on a client-side timeout) and \<open>err.response?.status\<close>
  (absent when no response was received).
\<close>

record err =
  code :: "string option"
  status :: "nat option"

text \<open>The settlement of one \<open>axios.get\<close> promise.\<close>

datatype 'a reply = Resolved 'a | Rejected err

text \<open>
  What a callback-style worker (\<open>getJSONCb\<close>, \<open>getContentCb\<close>) did with its
  \<open>handler\<close>: called it with a value, called it with an error, returned without
  calling it, or is still waiting for an upstream reply.
\<close>

datatype 'a outcome = CalledOk 'a | CalledErr err | NotCalled | AwaitingReply

subsection \<open>What the Downloader takes from outside\<close>

text \<open>
  The constants of \<open>util/const\<close> and the library calls the Downloader uses are not among
  the sources; they are parameters of the model:
  \<^item> \<open>urlPath url\<close> is \<open>urlParser.parse(url).path\<close> (\<open>None\<close> for \<open>null\<close>);
  \<^item> \<open>stripHttpFromUrl url\<close> is \<open>url.replace(FIND_HTTP_REGEX, '')\<close>;
  \<^item> \<open>replaceWeakEtag etag\<close> is \<open>etag.replace(WEAK_ETAG_REGEX, '')\<close>;
  \<^item> \<open>isImageUrl url\<close> is \<open>!!URL_IMAGE_REGEX.exec(url)\<close>;
  \<^item> \<open>isMimeTypeImage t\<close> is \<open>!!MIME_IMAGE_REGEX.exec(t)\<close>;
  \<^item> \<open>imagemin data\<close> is \<open>imagemin.buffer(data, imageminOptions)\<close>; \<open>None\<close> when
    it rejects (with an error that carries no HTTP response).
\<close>

record util =
  urlPath :: "string \<Rightarrow> string option"
  stripHttpFromUrl :: "string \<Rightarrow> string"
  replaceWeakEtag :: "string \<Rightarrow> string"
  isImageUrl :: "string \<Rightarrow> bool"
  isMimeTypeImage :: "string option \<Rightarrow> bool"
  imagemin :: "string \<Rightarrow> string option"

text \<open>An HTTP response as the Downloader reads it, and what the wire delivers.\<close>

record response =
  httpStatus :: nat
  etag :: "string option"
  contentType :: "string option"
  body :: string

datatype wire = Http response | NoResponse "string option"

text \<open>
  \<open>axios.get\<close> with a \<open>validateStatus\<close> option: a response whose status the
  validator refuses rejects with \<open>err.response.status\<close> set; a transport failure
  rejects with \<open>err.code\<close> only.
\<close>

definition axiosGet :: "(nat \<Rightarrow> bool) \<Rightarrow> wire \<Rightarrow> response reply" where
  "axiosGet validateStatus w =
     (case w of
        NoResponse c \<Rightarrow> Rejected \<lparr>code = c, status = None\<rparr>
      | Http r \<Rightarrow>
          if validateStatus (httpStatus r) then Resolved r
          else Rejected \<lparr>code = None, status = Some (httpStatus r)\<rparr>)"

text \<open>The validator of \<open>arrayBufferRequestOptions\<close>, and the client's default one.\<close>

definition validateStatus :: "nat \<Rightarrow> bool" where
  "validateStatus st = ((st \<ge> 200 \<and> st < 300) \<or> st = 304)"

definition defaultValidateStatus :: "nat \<Rightarrow> bool" where
  "defaultValidateStatus st = (st \<ge> 200 \<and> st < 300)"

text \<open>JavaScript truthiness of a value that is a string or \<open>undefined\<close>.\<close>

fun truthy :: "string option \<Rightarrow> bool" where
  "truthy None = False"
| "truthy (Some s) = (s \<noteq> [])"

subsection \<open>State of the Downloader\<close>

text \<open>
  The mutable fields of class \<open>Downloader\<close>, and \<open>optimisationCacheUrl\<close>. \<open>speed\<close>
  is the base worker count, a whole number, so the request limit is a natural;
  \<open>ifNoneMatch\<close> is the entry \<open>arrayBufferRequestOptions.headers['If-None-Match']\<close>;
  \<open>urlPartCache\<close> is the object \<open>urlPartCache\<close> with its entries in the order of
  \<open>Object.entries\<close>.
\<close>

record downloader =
  speed :: nat
  maxActiveRequests :: nat
  activeRequests :: int
  urlPartCache :: "(string \<times> string) list"
  optimisationCacheUrl :: string
  ifNoneMatch :: "string option"

text \<open>The constructor: \<open>this.maxActiveRequests = speed * 10\<close>.\<close>

definition newDownloader :: "nat \<Rightarrow> string \<Rightarrow> downloader" where
  "newDownloader spd cacheUrl =
     \<lparr>speed = spd, maxActiveRequests = spd * 10, activeRequests = 0,
      urlPartCache = [], optimisationCacheUrl = cacheUrl, ifNoneMatch = None\<rparr>"

text \<open>The default \<open>backoffOptions\<close> of the constructor.\<close>

definition failAfter :: nat where
  "failAfter = 7"

definition retryIf :: "err \<Rightarrow> bool" where
  "retryIf e = (code e = Some ''ECONNABORTED'' \<or> status e \<noteq> Some 404)"

text \<open>
  \<open>Math.max(Math.ceil(this.maxActiveRequests * 0.9), 1)\<close>. The product is taken in
  the reals; for limits below \<open>2^49\<close> the double-precision product has the same ceiling.
\<close>

definition newMaxActiveRequests :: "nat \<Rightarrow> nat" where
  "newMaxActiveRequests m = max (nat \<lceil>real m * 0.9\<rceil>) 1"

text \<open>
  \<open>claimRequest\<close>: takes a slot when one is free; \<open>None\<close> is the branch that sleeps
  200 ms and polls again.
\<close>

definition claimRequest :: "downloader \<Rightarrow> downloader option" where
  "claimRequest d =
     (if activeRequests d < int (maxActiveRequests d)
      then Some (d\<lparr>activeRequests := activeRequests d + 1\<rparr>)
      else None)"

definition releaseRequest :: "downloader \<Rightarrow> downloader" where
  "releaseRequest d = d\<lparr>activeRequests := activeRequests d - 1\<rparr>"

subsection \<open>The URL prefix table\<close>

text \<open>Decimal digits of a number, as \<open>String(n)\<close> prints them.\<close>

definition digitChar :: "nat \<Rightarrow> char" where
  "digitChar n = ''0123456789'' ! n"

function stringOfNat :: "nat \<Rightarrow> string" where
  "stringOfNat n = (if n < 10 then [digitChar n] else stringOfNat (n div 10) @ [digitChar (n mod 10)])"
  by pat_completeness auto
termination
  by (relation "measure id") auto

declare stringOfNat.simps [simp del]

text \<open>The value of a string of decimal digits, as \<open>Number\<close> reads it.\<close>

definition isDigit :: "char \<Rightarrow> bool" where
  "isDigit c = (c \<in> set ''0123456789'')"

definition digitValue :: "char \<Rightarrow> nat" where
  "digitValue c = of_char c - 48"

definition natOfDigits :: "string \<Rightarrow> nat" where
  "natOfDigits s = foldl (\<lambda>a c. 10 * a + digitValue c) 0 s"

text \<open>
  \<open>s.replace(pattern, '')\<close> with a string pattern: the first occurrence of the pattern
  is removed.
\<close>

fun removeFirst :: "string \<Rightarrow> string \<Rightarrow> string" where
  "removeFirst pat [] = []"
| "removeFirst pat (c # cs) =
     (if prefix pat (c # cs) then drop (length pat) (c # cs) else c # removeFirst pat cs)"

text \<open>\<open>s.split(sep)\<close> for a one-character separator, and \<open>parts.join(sep)\<close>.\<close>

fun split :: "char \<Rightarrow> string \<Rightarrow> string list" where
  "split sep [] = [[]]"
| "split sep (c # cs) =
     (if c = sep then [] # split sep cs
      else (case split sep cs of [] \<Rightarrow> [[c]] | p # ps \<Rightarrow> (c # p) # ps))"

fun join :: "string \<Rightarrow> string list \<Rightarrow> string" where
  "join sep [] = []"
| "join sep [p] = p"
| "join sep (p # q # ps) = p @ sep @ join sep (q # ps)"

text \<open>A value interpolated into a template string: \<open>null\<close> and \<open>undefined\<close> print their names.\<close>

definition orNull :: "string option \<Rightarrow> string" where
  "orNull v = (case v of None \<Rightarrow> ''null'' | Some s \<Rightarrow> s)"

definition orUndefined :: "string option \<Rightarrow> string" where
  "orUndefined v = (case v of None \<Rightarrow> ''undefined'' | Some s \<Rightarrow> s)"

text \<open>\<open>obj[key] = value\<close> on the entry list: an existing key keeps its place.\<close>

fun setEntry :: "(string \<times> string) list \<Rightarrow> string \<Rightarrow> string \<Rightarrow> (string \<times> string) list" where
  "setEntry [] k v = [(k, v)]"
| "setEntry ((k', v') # es) k v = (if k' = k then (k, v) # es else (k', v') # setEntry es k v)"

text \<open>
  \<open>serializeUrl\<close>. \<open>url.replace(path, '')\<close> converts a \<open>null\<close> path to the pattern
  \<open>"null"\<close>, as the template string at the end does.
\<close>

definition serializeUrl :: "util \<Rightarrow> downloader \<Rightarrow> string \<Rightarrow> string \<times> downloader" where
  "serializeUrl U d url =
     (let path = orNull (urlPath U url);
          cacheablePart = removeFirst path url
      in case find (\<lambda>(cacheId, value). value = cacheablePart) (urlPartCache d) of
           None \<Rightarrow>
             (let cacheId = stringOfNat (length (urlPartCache d) + 1)
              in (''_'' @ cacheId @ ''_'' @ path,
                  d\<lparr>urlPartCache := setEntry (urlPartCache d) cacheId cacheablePart\<rparr>))
         | Some cacheEntry \<Rightarrow> (''_'' @ fst cacheEntry @ ''_'' @ path, d))"

text \<open>
  \<open>deserializeUrl\<close>. The destructuring \<open>[, cacheId, ...pathParts]\<close> skips the first
  part; a string that starts with \<open>_\<close> always splits into at least two parts.
\<close>

definition deserializeUrl :: "downloader \<Rightarrow> string \<Rightarrow> string" where
  "deserializeUrl d url =
     (if \<not> prefix ''_'' url then url
      else (case tl (split CHR ''_'' url) of
              [] \<Rightarrow> orUndefined None
            | cacheId # pathParts \<Rightarrow>
                orUndefined (map_of (urlPartCache d) cacheId) @ join ''_'' pathParts))"

subsection \<open>Requests\<close>

text \<open>
  \<open>getJSONCb\<close>, run against the wire replies to the successive \<open>axios.get\<close> calls it
  issues. On a 429 it lowers \<open>maxActiveRequests\<close> and calls itself again (a new
  request); on a 404 it hands the error to the handler; on any other rejection the
  \<open>catch\<close> block falls through both branches and the handler is not called.
\<close>

fun getJSONCb :: "downloader \<Rightarrow> wire list \<Rightarrow> string outcome \<times> downloader" where
  "getJSONCb d [] = (AwaitingReply, d)"
| "getJSONCb d (w # ws) =
     (case axiosGet defaultValidateStatus w of
        Resolved a \<Rightarrow> (CalledOk (body a), d)
      | Rejected e \<Rightarrow>
          if status e = Some 429
          then getJSONCb (d\<lparr>maxActiveRequests := newMaxActiveRequests (maxActiveRequests d)\<rparr>) ws
          else if status e = Some 404 then (CalledErr e, d)
          else (NotCalled, d))"

text \<open>\<open>errHandler\<close>: lowers \<open>maxActiveRequests\<close> on a 429, then always calls the handler.\<close>

definition errHandler :: "downloader \<Rightarrow> err \<Rightarrow> 'a outcome \<times> downloader" where
  "errHandler d e =
     (CalledErr e,
      if status e = Some 429
      then d\<lparr>maxActiveRequests := newMaxActiveRequests (maxActiveRequests d)\<rparr>
      else d)"

subsection \<open>The blob cache\<close>

text \<open>
  Modelled from the spec: the blob cache client (class \<open>S3\<close>, whose source is not among
  the files). The cache holds objects keyed by the stripped URL; a GET returns
  \<open>{ Body, Metadata: { etag } }\<close> or nothing, a PUT writes the body with its etag.
\<close>

record blob =
  Body :: string
  Metadata_etag :: "string option"

type_synonym blobCache = "string \<rightharpoonup> blob"

definition downloadBlob :: "blobCache \<Rightarrow> string \<Rightarrow> blob option" where
  "downloadBlob s3 key = s3 key"

definition uploadBlob :: "blobCache \<Rightarrow> string \<Rightarrow> string \<Rightarrow> string \<Rightarrow> blobCache" where
  "uploadBlob s3 key data e = s3(key \<mapsto> \<lparr>Body = data, Metadata_etag = Some e\<rparr>)"

subsection \<open>Binary content\<close>

text \<open>
  What \<open>downloadContent\<close> resolves to. The response headers are those of the upstream
  response, or, on a 304, the cached object without its \<open>Body\<close>.
\<close>

datatype headers = UpstreamHeaders "string option" "string option" | BlobFields "string option"

record content =
  responseHeaders :: headers
  content :: string

text \<open>\<open>removeEtagWeakPrefix\<close>: \<open>etag && etag.replace(WEAK_ETAG_REGEX, '')\<close>.\<close>

definition removeEtagWeakPrefix :: "util \<Rightarrow> string option \<Rightarrow> string option" where
  "removeEtagWeakPrefix U e = (if truthy e then map_option (replaceWeakEtag U) e else e)"

text \<open>An exception thrown by the code itself carries neither a code nor a response.\<close>

definition typeError :: err where
  "typeError = \<lparr>code = None, status = None\<rparr>"

definition getCompressedBody :: "util \<Rightarrow> response \<Rightarrow> err + string" where
  "getCompressedBody U resp =
     (if isMimeTypeImage U (contentType resp)
      then (case imagemin U (body resp) of None \<Rightarrow> Inl typeError | Some c \<Rightarrow> Inr c)
      else Inr (body resp))"

text \<open>
  The result of one run of a content worker: what the handler received, the Downloader,
  the blob cache, and the \<open>If-None-Match\<close> header that the upstream GET carried.
\<close>

record attempt =
  handled :: "content outcome"
  state :: downloader
  cache :: blobCache
  sentIfNoneMatch :: "string option"

text \<open>
  \<open>downloadImage\<close>. The upstream answers the GET it receives, so it is a function of
  the \<open>If-None-Match\<close> header. Every exception and rejection inside the promise chain
  ends in \<open>errHandler\<close>; the upload is started before the body is optimised.
\<close>

definition downloadImage ::
  "util \<Rightarrow> downloader \<Rightarrow> blobCache \<Rightarrow> string \<Rightarrow> (string option \<Rightarrow> wire) \<Rightarrow> attempt" where
  "downloadImage U d s3 url upstream =
     (let imageResp = downloadBlob s3 (stripHttpFromUrl U url);
          cachedEtag = (case imageResp of None \<Rightarrow> None | Some b \<Rightarrow> Metadata_etag b);
          d1 = (if truthy cachedEtag
                then d\<lparr>ifNoneMatch := removeEtagWeakPrefix U cachedEtag\<rparr> else d);
          failed = (\<lambda>e c. \<lparr>handled = fst (errHandler d1 e), state = snd (errHandler d1 e :: content outcome \<times> downloader),
                            cache = c, sentIfNoneMatch = ifNoneMatch d1\<rparr>)
      in case axiosGet validateStatus (upstream (ifNoneMatch d1)) of
           Rejected e \<Rightarrow> failed e s3
         | Resolved resp \<Rightarrow>
             if httpStatus resp = 304 then
               (case imageResp of
                  None \<Rightarrow> failed typeError s3
                | Some b \<Rightarrow>
                    \<lparr>handled = CalledOk \<lparr>responseHeaders = BlobFields (Metadata_etag b), content = Body b\<rparr>,
                     state = d1, cache = s3, sentIfNoneMatch = ifNoneMatch d1\<rparr>)
             else
               (let e = removeEtagWeakPrefix U (etag resp);
                    s3' = (if truthy e then uploadBlob s3 (stripHttpFromUrl U url) (body resp) (the e)
                           else s3)
                in case getCompressedBody U resp of
                     Inl x \<Rightarrow> failed x s3'
                   | Inr c \<Rightarrow>
                       \<lparr>handled = CalledOk \<lparr>responseHeaders = UpstreamHeaders (etag resp) (contentType resp),
                                               content = c\<rparr>,
                        state = d1, cache = s3', sentIfNoneMatch = ifNoneMatch d1\<rparr>))"

text \<open>
  \<open>getContentCb\<close>: images go through the blob cache when an optimisation cache is
  configured; everything else is fetched with the same shared request options.
\<close>

definition getContentCb ::
  "util \<Rightarrow> downloader \<Rightarrow> blobCache \<Rightarrow> string \<Rightarrow> (string option \<Rightarrow> wire) \<Rightarrow> attempt" where
  "getContentCb U d s3 url upstream =
     (if optimisationCacheUrl d \<noteq> [] \<and> isImageUrl U url then downloadImage U d s3 url upstream
      else
        (let failed = (\<lambda>e. \<lparr>handled = fst (errHandler d e), state = snd (errHandler d e :: content outcome \<times> downloader),
                             cache = s3, sentIfNoneMatch = ifNoneMatch d\<rparr>)
         in case axiosGet validateStatus (upstream (ifNoneMatch d)) of
              Rejected e \<Rightarrow> failed e
            | Resolved resp \<Rightarrow>
                (case getCompressedBody U resp of
                   Inl x \<Rightarrow> failed x
                 | Inr c \<Rightarrow>
                     \<lparr>handled = CalledOk \<lparr>responseHeaders = UpstreamHeaders (etag resp) (contentType resp),
                                             content = c\<rparr>,
                      state = d, cache = s3, sentIfNoneMatch = ifNoneMatch d\<rparr>)))"

subsection \<open>Retries\<close>

text \<open>
  The call object of the \<open>backoff\<close> library as \<open>backoffCall\<close> configures it: the worker
  is run; when it hands an error to its callback and \<open>retryIf\<close> holds for the error, the
  worker is run again after a delay, until \<open>failAfter\<close> delays have been spent; every
  other callback is final. A worker that never calls back leaves the call open. The
  list holds what the outside world feeds to the successive runs; delays are not modelled.
\<close>

fun backoffCall ::
  "nat \<Rightarrow> (err \<Rightarrow> bool) \<Rightarrow> ('s \<Rightarrow> 'r \<Rightarrow> 'a outcome \<times> 's) \<Rightarrow> 's \<Rightarrow> 'r list \<Rightarrow> 'a outcome \<times> 's" where
  "backoffCall n p f s [] = (AwaitingReply, s)"
| "backoffCall n p f s (r # rs) =
     (case f s r of
        (CalledErr e, s') \<Rightarrow>
          (if p e then (case n of 0 \<Rightarrow> (CalledErr e, s') | Suc k \<Rightarrow> backoffCall k p f s' rs)
           else (CalledErr e, s'))
      | other \<Rightarrow> other)"

text \<open>How a promise of \<open>getJSON\<close> or \<open>downloadContent\<close> ends.\<close>

datatype 'a promise = Fulfilled 'a | RejectedWith err | Pending

text \<open>
  \<open>getJSON\<close>: the slot is claimed, the retried call is started, and the slot is released
  in the final callback. Each run of \<open>getJSONCb\<close> is fed the wire replies to the
  requests it issues.
\<close>

definition getJSON :: "downloader \<Rightarrow> string \<Rightarrow> wire list list \<Rightarrow> string promise \<times> downloader" where
  "getJSON d url0 feeds =
     (let url = deserializeUrl d url0
      in case claimRequest d of
           None \<Rightarrow> (Pending, d)
         | Some d1 \<Rightarrow>
             (case backoffCall failAfter retryIf getJSONCb d1 feeds of
                (CalledOk val, d2) \<Rightarrow> (Fulfilled val, releaseRequest d2)
              | (CalledErr e, d2) \<Rightarrow> (RejectedWith e, releaseRequest d2)
              | (_, d2) \<Rightarrow> (Pending, d2)))"

text \<open>
  \<open>downloadContent\<close>, with the Downloader and the blob cache as the state of the
  retried call.
\<close>

definition contentWorker ::
  "util \<Rightarrow> string \<Rightarrow> downloader \<times> blobCache \<Rightarrow> (string option \<Rightarrow> wire)
     \<Rightarrow> content outcome \<times> (downloader \<times> blobCache)" where
  "contentWorker U url s upstream =
     (let a = getContentCb U (fst s) (snd s) url upstream in (handled a, (state a, cache a)))"

definition downloadContent ::
  "util \<Rightarrow> downloader \<Rightarrow> blobCache \<Rightarrow> string \<Rightarrow> (string option \<Rightarrow> wire) list
     \<Rightarrow> (err + content promise) \<times> downloader \<times> blobCache" where
  "downloadContent U d s3 url0 feeds =
     (if url0 = [] then (Inl typeError, d, s3)
      else
        (let url = deserializeUrl d url0
         in case claimRequest d of
              None \<Rightarrow> (Inr Pending, d, s3)
            | Some d1 \<Rightarrow>
                (case backoffCall failAfter retryIf (contentWorker U url) (d1, s3) feeds of
                   (CalledOk val, (d2, c2)) \<Rightarrow> (Inr (Fulfilled val), releaseRequest d2, c2)
                 | (CalledErr e, (d2, c2)) \<Rightarrow> (Inr (RejectedWith e), releaseRequest d2, c2)
                 | (_, (d2, c2)) \<Rightarrow> (Inr Pending, d2, c2))))"

subsection \<open>Runs of the Downloader\<close>

text \<open>
  The steps that write a field of the Downloader: a slot claimed or released, one reply
  received by \<open>getJSONCb\<close>, one run of \<open>getContentCb\<close>, one call of
  \<open>serializeUrl\<close>. A run is any sequence of them, from the state the constructor leaves.
\<close>

datatype action =
    ClaimRequest
  | ReleaseRequest
  | GetJSONCbReply wire
  | GetContentCb string "string option \<Rightarrow> wire"
  | SerializeUrl string

fun step :: "util \<Rightarrow> action \<Rightarrow> downloader \<times> blobCache \<Rightarrow> downloader \<times> blobCache" where
  "step U ClaimRequest (d, s3) = (case claimRequest d of Some d' \<Rightarrow> (d', s3) | None \<Rightarrow> (d, s3))"
| "step U ReleaseRequest (d, s3) = (releaseRequest d, s3)"
| "step U (GetJSONCbReply w) (d, s3) = (snd (getJSONCb d [w]), s3)"
| "step U (GetContentCb url upstream) (d, s3) =
     (let a = getContentCb U d s3 url upstream in (state a, cache a))"
| "step U (SerializeUrl url) (d, s3) = (snd (serializeUrl U d url), s3)"

fun run :: "util \<Rightarrow> action list \<Rightarrow> downloader \<times> blobCache \<Rightarrow> downloader \<times> blobCache" where
  "run U [] st = st"
| "run U (a # as) st = run U as (step U a st)"



subsection \<open>An instance of the parameters\<close>

text \<open>
  The examples below need the parameters at concrete values. \<open>sampleUrlPath\<close> gives the
  path that Node's \<open>url.parse\<close> reports for a URL of the shape
  \<open>scheme://authority/path?query#fragment\<close>: the text from the first \<open>/\<close> or \<open>?\<close>
  after the authority up to the fragment, with \<open>/\<close> in front when the path is
  empty. \<open>sampleReplaceWeakEtag\<close> removes the weak-validator prefix \<open>W/\<close> that
  the name \<open>WEAK_ETAG_REGEX\<close> stands for, and \<open>sampleStripHttp\<close> the scheme.
\<close>

fun afterScheme :: "string \<Rightarrow> string option" where
  "afterScheme [] = None"
| "afterScheme (c # cs) =
     (if prefix ''://'' (c # cs) then Some (drop 3 (c # cs)) else afterScheme cs)"

definition sampleUrlPath :: "string \<Rightarrow> string option" where
  "sampleUrlPath url =
     (case afterScheme url of
        None \<Rightarrow>
          (let p = takeWhile (\<lambda>c. c \<noteq> CHR ''#'') url in if p = [] then None else Some p)
      | Some rest \<Rightarrow>
          (let tail = dropWhile (\<lambda>c. c \<noteq> CHR ''/'' \<and> c \<noteq> CHR ''?'' \<and> c \<noteq> CHR ''#'') rest;
               p = takeWhile (\<lambda>c. c \<noteq> CHR ''#'') tail
           in Some (if prefix ''/'' p then p else ''/'' @ p)))"

definition sampleStripHttp :: "string \<Rightarrow> string" where
  "sampleStripHttp url =
     (if prefix ''https://'' url then drop 8 url
      else if prefix ''http://'' url then drop 7 url else url)"

definition sampleReplaceWeakEtag :: "string \<Rightarrow> string" where
  "sampleReplaceWeakEtag e = (if prefix ''W/'' e then drop 2 e else e)"

definition sampleIsImageUrl :: "string \<Rightarrow> bool" where
  "sampleIsImageUrl url = (suffix ''.png'' url \<or> suffix ''.jpg'' url \<or> suffix ''.svg'' url)"

definition sampleUtil :: util where
  "sampleUtil =
     \<lparr>urlPath = sampleUrlPath, stripHttpFromUrl = sampleStripHttp,
      replaceWeakEtag = sampleReplaceWeakEtag, isImageUrl = sampleIsImageUrl,
      isMimeTypeImage = (\<lambda>t. case t of None \<Rightarrow> False | Some s \<Rightarrow> prefix ''image/'' s),
      imagemin = Some\<rparr>"


text \<open>A Downloader that has serialized one URL of the wiki API.\<close>

definition sampleDownloader :: downloader where
  "sampleDownloader =
     fst (run sampleUtil [SerializeUrl ''https://en.wikipedia.org/w/api.php?action=query'']
            (newDownloader 1 ''s3.example.org'', Map.empty))"

subsection \<open>Well-formed prefix tables\<close>

text \<open>
  The shape of every table that \<open>serializeUrl\<close> builds: the keys are the numbers
  \<open>1..n\<close> in order, and no prefix is stored twice.
\<close>

definition cacheInv :: "(string \<times> string) list \<Rightarrow> bool" where
  "cacheInv es = (map fst es = map stringOfNat [1..<Suc (length es)] \<and> distinct (map snd es))"




section \<open>The Renderer (src/src/util/articleRenderers.ts)\<close>

subsection \<open>Article details and their store\<close>

text \<open>
  \<open>PageInfo\<close> and \<open>ArticleDetail\<close> of \<open>types.d.ts\<close>, with the fields the renderer
  reads or writes; \<open>Object.assign\<close> copies every other field unchanged. An absent
  field, \<open>undefined\<close> and \<open>null\<close> are \<open>None\<close>.
\<close>

record pageInfo =
  pageid :: nat
  ns :: int
  title :: string

record articleDetail = pageInfo +
  subCategories :: "pageInfo list option"
  nextArticleId :: "string option"
  prevArticleId :: "string option"

text \<open>
  Modelled from the spec: the key-value store \<open>articleDetailXId\<close> (class \<open>RedisKvs\<close>,
  whose source is not among the files): \<open>get\<close> returns the record last \<open>set\<close> under
  the key, or nothing.
\<close>

type_synonym articleStore = "string \<rightharpoonup> articleDetail"

subsection \<open>Upstream JSON\<close>


text \<open>Exceptions raised by the code itself.\<close>

datatype exception = TypeError | Error

subsection \<open>What the renderer takes from outside\<close>




subsection \<open>Rendering\<close>










subsection \<open>An instance of the renderer's parameters\<close>













section \<open>The media queue (src/src/util/saveArticles.ts, src/unnamed/part_001)\<close>

subsection \<open>Sizes read from a URL\<close>

text \<open>
  A JavaScript number that is either \<open>NaN\<close> or finite. Finite values are kept as
  exact rationals: the decimal strings read here are short, and rounding to double
  precision is not modelled. \<open>undefined\<close> is \<open>None\<close>.
\<close>

datatype jsnumber = NaN | Finite rat

text \<open>
  \<open>a < b\<close> on operands that are numbers or \<open>undefined\<close>: \<open>undefined\<close> converts to
  \<open>NaN\<close>, and every comparison with \<open>NaN\<close> is false.
\<close>

fun jsLess :: "jsnumber option \<Rightarrow> jsnumber option \<Rightarrow> bool" where
  "jsLess (Some (Finite x)) (Some (Finite y)) = (x < y)"
| "jsLess _ _ = False"


text \<open>\<open>url.match(/-([0-9.]+)x\./)\<close>, in the same way.\<close>

definition isDigitOrDot :: "char \<Rightarrow> bool" where
  "isDigitOrDot c = (isDigit c \<or> c = CHR ''.'')"


text \<open>
  \<open>Number(s)\<close> for a non-empty string of digits and dots: a decimal numeral with at
  most one dot and at least one digit, and \<open>NaN\<close> otherwise.
\<close>

definition numberOfDecimal :: "string \<Rightarrow> jsnumber" where
  "numberOfDecimal s =
     (let whole = takeWhile isDigit s;
          rest = dropWhile isDigit s
      in if rest = [] then Finite (of_nat (natOfDigits whole))
         else if hd rest = CHR ''.'' \<and> list_all isDigit (tl rest) \<and> (whole \<noteq> [] \<or> tl rest \<noteq> [])
         then Finite (of_nat (natOfDigits whole) + of_nat (natOfDigits (tl rest)) / 10 ^ length (tl rest))
         else NaN)"


subsection \<open>The store of files to download\<close>






subsection \<open>The claim's maximum\<close>









section \<open>The DOM rewriter (src/src/util/saveArticles.ts)\<close>

subsection \<open>Documents\<close>

text \<open>
  A parsed document as the rewriter sees it: a store of nodes, each with its tag, its
  attributes, its parent and its children. A node reference is the index of the node in
  the store; node 0 is the document, \<open>nodeType\<close> is 9 for it, 1 for an element and 3
  for a text node. Tag names are in upper case, as \<open>tagName\<close> reports them for HTML
  elements, and attribute names in lower case. A node that is removed from the tree
  stays in the store without a parent, as a detached DOM node does.
\<close>

record node =
  nodeType :: nat
  tagName :: string
  attributes :: "(string \<times> string) list"
  parentNode :: "nat option"
  childNodes :: "nat list"

type_synonym dom = "node list"

definition nodeAt :: "dom \<Rightarrow> nat \<Rightarrow> node" where
  "nodeAt d n =
     (if n < length d then d ! n
      else \<lparr>nodeType = 0, tagName = [], attributes = [], parentNode = None, childNodes = []\<rparr>)"

definition getAttribute :: "dom \<Rightarrow> nat \<Rightarrow> string \<Rightarrow> string option" where
  "getAttribute d n a = map_of (attributes (nodeAt d n)) a"

definition setAttribute :: "dom \<Rightarrow> nat \<Rightarrow> string \<Rightarrow> string \<Rightarrow> dom" where
  "setAttribute d n a v = d[n := (nodeAt d n)\<lparr>attributes := setEntry (attributes (nodeAt d n)) a v\<rparr>]"

definition removeAttribute :: "dom \<Rightarrow> nat \<Rightarrow> string \<Rightarrow> dom" where
  "removeAttribute d n a =
     d[n := (nodeAt d n)\<lparr>attributes := filter (\<lambda>kv. fst kv \<noteq> a) (attributes (nodeAt d n))\<rparr>]"

text \<open>\<open>el.children\<close>: the child nodes that are elements.\<close>

definition children :: "dom \<Rightarrow> nat \<Rightarrow> nat list" where
  "children d n = filter (\<lambda>c. nodeType (nodeAt d c) = 1) (childNodes (nodeAt d n))"


text \<open>
  Modelled from the spec: \<open>DOMUtils.deleteNode\<close> and \<open>DOMUtils.nextElementSibling\<close>
  (class \<open>DOMUtils\<close>, whose source is not among the files). Deleting a node takes it
  out of its parent's children; the next element sibling is the first element among
  the siblings that follow the node.
\<close>

definition deleteNode :: "dom \<Rightarrow> nat \<Rightarrow> dom" where
  "deleteNode d n =
     (case parentNode (nodeAt d n) of
        None \<Rightarrow> d
      | Some p \<Rightarrow>
          (d[p := (nodeAt d p)\<lparr>childNodes := filter (\<lambda>c. c \<noteq> n) (childNodes (nodeAt d p))\<rparr>])
           [n := (nodeAt d n)\<lparr>parentNode := None\<rparr>])"


text \<open>
  \<open>parent.replaceChild(newChild, oldChild)\<close> for an \<open>oldChild\<close> that is a child of
  \<open>parent\<close>: the new child leaves its own parent and takes the place of the old one.
\<close>

definition replaceChild :: "dom \<Rightarrow> nat \<Rightarrow> nat \<Rightarrow> nat \<Rightarrow> dom" where
  "replaceChild d p newChild oldChild =
     (let d1 = deleteNode d newChild;
          d2 = d1[p := (nodeAt d1 p)
                   \<lparr>childNodes := map (\<lambda>c. if c = oldChild then newChild else c)
                                    (childNodes (nodeAt d1 p))\<rparr>];
          d3 = d2[oldChild := (nodeAt d2 oldChild)\<lparr>parentNode := None\<rparr>]
      in d3[newChild := (nodeAt d3 newChild)\<lparr>parentNode := Some p\<rparr>])"

text \<open>
  The descendants of a node in document order. The walk goes as deep as the store has
  nodes, which is deeper than any tree in it.
\<close>

fun descendantsWithin :: "nat \<Rightarrow> dom \<Rightarrow> nat \<Rightarrow> nat list" where
  "descendantsWithin 0 d n = []"
| "descendantsWithin (Suc k) d n =
     concat (map (\<lambda>c. c # descendantsWithin k d c) (childNodes (nodeAt d n)))"

text \<open>\<open>parsoidDoc.getElementsByTagName(tag)\<close>, as the list it holds at the moment.\<close>

definition getElementsByTagName :: "dom \<Rightarrow> string \<Rightarrow> nat list" where
  "getElementsByTagName d tag =
     filter (\<lambda>n. nodeType (nodeAt d n) = 1 \<and> tagName (nodeAt d n) = tag)
       (descendantsWithin (length d) d 0)"

subsection \<open>Pass C: headings without content\<close>








subsection \<open>Pass A: media\<close>

text \<open>
  What the media pass takes from outside. The functions of \<open>util\<close> that it imports
  rest on URL parsing, regular expressions of \<open>util/const\<close> and a hash, none of which
  is among the sources; \<open>MediaWiki\<close> is not either:
  \<^item> \<open>getFullUrl v\<close> is \<open>getFullUrl(webUrlHost, v)\<close> for an attribute value \<open>v\<close>,
    which may be \<open>null\<close>; it may raise;
  \<^item> \<open>getMediaBase url escape\<close> is the function of that name; it may raise;
  \<^item> \<open>toNumber s\<close> is the number that \<open>Number(s)\<close> and the comparison
    \<open>s < 40\<close> read from a string;
  \<^item> \<open>extractPageTitleFromHref href\<close> is \<open>mw.extractPageTitleFromHref(href)\<close>;
  \<^item> \<open>improveImageFrames doc\<close> is the third loop of \<open>treatMedias\<close>, which wraps
    figures and frameless images into thumbnail boxes: it rewrites the tree, may raise,
    and neither reads nor returns a media dependency.
\<close>

record mediaEnv =
  getFullUrl :: "string option \<Rightarrow> exception + string"
  getMediaBase :: "string \<Rightarrow> bool \<Rightarrow> exception + string"
  toNumber :: "string \<Rightarrow> jsnumber"
  extractPageTitleFromHref :: "string \<Rightarrow> string option"
  improveImageFrames :: "dom \<Rightarrow> exception + dom"

record dump =
  nopic :: bool
  novid :: bool
  nodet :: bool

text \<open>Sequencing of steps that may raise.\<close>

definition andThen :: "exception + 'a \<Rightarrow> ('a \<Rightarrow> exception + 'b) \<Rightarrow> exception + 'b" where
  "andThen r f = (case r of Inl e \<Rightarrow> Inl e | Inr x \<Rightarrow> f x)"

text \<open>\<open>getRelativeFilePath\<close> of \<open>util/misc\<close> (src/unnamed/part_001).\<close>

definition getRelativeFilePath :: "string \<Rightarrow> string \<Rightarrow> string \<Rightarrow> string" where
  "getRelativeFilePath parentArticleId fileBase resourceNamespace =
     (let slashesInUrl = length (split CHR ''/'' parentArticleId) - 1;
          upStr = concat (replicate (slashesInUrl + 1) ''../'')
      in upStr @ resourceNamespace @ ''/'' @ fileBase)"

text \<open>
  \<open>widthXHeightSorter\<close> compares the products of width and height; an attribute that
  is absent or empty gives way to the next one and at last to 0.
\<close>

fun jsTimes :: "jsnumber \<Rightarrow> jsnumber \<Rightarrow> jsnumber" where
  "jsTimes (Finite x) (Finite y) = Finite (x * y)"
| "jsTimes _ _ = NaN"

definition firstTruthy :: "mediaEnv \<Rightarrow> string option \<Rightarrow> string option \<Rightarrow> jsnumber" where
  "firstTruthy E a b =
     (if truthy a then toNumber E (the a) else if truthy b then toNumber E (the b) else Finite 0)"

definition widthXHeight :: "mediaEnv \<Rightarrow> dom \<Rightarrow> nat \<Rightarrow> jsnumber" where
  "widthXHeight E d a =
     jsTimes (firstTruthy E (getAttribute d a ''data-file-width'') (getAttribute d a ''data-width''))
             (firstTruthy E (getAttribute d a ''data-file-height'') (getAttribute d a ''data-height''))"

definition widthXHeightSorter :: "mediaEnv \<Rightarrow> dom \<Rightarrow> nat \<Rightarrow> nat \<Rightarrow> int" where
  "widthXHeightSorter E d a b =
     (if jsLess (Some (widthXHeight E d b)) (Some (widthXHeight E d a)) then 1 else - 1)"

text \<open>
  \<open>videoSources.sort(widthXHeightSorter)\<close>. The comparator never answers 0, so the
  order of equal sources is up to the engine; here, as in V8's insertion of short
  arrays, an element moves left past every element it does not exceed.
\<close>

fun insertSource :: "(nat \<Rightarrow> nat \<Rightarrow> int) \<Rightarrow> nat \<Rightarrow> nat list \<Rightarrow> nat list" where
  "insertSource cmp x [] = [x]"
| "insertSource cmp x (y # ys) = (if cmp x y < 0 then x # y # ys else y # insertSource cmp x ys)"

definition sortSources :: "(nat \<Rightarrow> nat \<Rightarrow> int) \<Rightarrow> nat list \<Rightarrow> nat list" where
  "sortSources cmp xs = foldl (\<lambda>sorted x. insertSource cmp x sorted) [] xs"

text \<open>
  \<open>srcCache\<close>, the table of the URLs already recorded for the article. Its keys are
  absolute URLs, never a name that an object inherits, so \<open>hasOwnProperty\<close> is
  membership.
\<close>

type_synonym srcCache = "string set"

text \<open>
  The block \<open>if (!srcCache.hasOwnProperty(u)) { srcCache[u] = true;
  mediaDependencies.push(u); }\<close>, which the video and the image code share.
\<close>

definition recordUrl :: "string \<Rightarrow> string list \<times> srcCache \<Rightarrow> string list \<times> srcCache" where
  "recordUrl u s = (if u \<notin> snd s then (fst s @ [u], insert u (snd s)) else s)"

text \<open>
  \<open>treatVideo\<close>. The result holds \<open>mediaDependencies\<close>, or \<open>None\<close> where the
  function returns \<open>undefined\<close>, with the document and the table.
\<close>

definition treatVideo ::
  "mediaEnv \<Rightarrow> dump \<Rightarrow> srcCache \<Rightarrow> string \<Rightarrow> dom \<Rightarrow> nat
     \<Rightarrow> exception + (string list option \<times> dom \<times> srcCache)" where
  "treatVideo E dmp srcCache aId d videoEl =
     (let posterUrl = getAttribute d videoEl ''poster''
      in andThen (getFullUrl E posterUrl) (\<lambda>videoPosterUrl.
         andThen (getMediaBase E videoPosterUrl True) (\<lambda>posterBase.
           (let newVideoPosterUrl = getRelativeFilePath aId posterBase ''I'';
                videoSources = filter (\<lambda>c. tagName (nodeAt d c) = ''SOURCE'') (children d videoEl);
                height = getAttribute d videoEl ''height'';
                d1 = (if truthy height \<and> jsLess (Some (toNumber E (the height))) (Some (Finite 40))
                      then setAttribute d videoEl ''height'' ''40'' else d);
                d2 = setAttribute d1 videoEl ''controls'' ''40''
            in if nopic dmp \<or> novid dmp \<or> nodet dmp then Inr (Some [], deleteNode d2 videoEl, srcCache)
               else
                 (let d3 = (if truthy posterUrl then setAttribute d2 videoEl ''poster'' newVideoPosterUrl
                            else d2);
                      d4 = removeAttribute d3 videoEl ''resource'';
                      s1 = recordUrl videoPosterUrl ([], srcCache);
                      sorted = sortSources (widthXHeightSorter E d4) videoSources;
                      d5 = fold (\<lambda>n dd. deleteNode dd n) (drop 1 sorted) d4
                  in case sorted of
                       [] \<Rightarrow> Inl TypeError
                     | sourceEl # others \<Rightarrow>
                         andThen (getFullUrl E (getAttribute d5 sourceEl ''src'')) (\<lambda>sourceUrl.
                         andThen (getMediaBase E sourceUrl True) (\<lambda>fileBase.
                           if fileBase = [] then Inr (None, deleteNode d5 sourceEl, snd s1)
                           else
                             (let newUrl = getRelativeFilePath aId fileBase ''I'';
                                  s2 = recordUrl sourceUrl s1
                              in Inr (Some (fst s2), setAttribute d5 sourceEl ''src'' newUrl,
                                      snd s2)))))))))"

text \<open>\<open>s.search(pattern) >= 0\<close> for a pattern without special characters.\<close>

fun containsText :: "string \<Rightarrow> string \<Rightarrow> bool" where
  "containsText pat [] = (pat = [])"
| "containsText pat (c # cs) = (prefix pat (c # cs) \<or> containsText pat cs)"

text \<open>
  \<open>treatImage\<close>; \<open>store\<close> is \<open>articleDetailXId\<close>, which \<open>isMirrored\<close> consults.
  The \<open>try\<close> around \<open>getMediaBase\<close> swallows its exception and leaves \<open>newSrc\<close>
  undefined.
\<close>

definition treatImage ::
  "mediaEnv \<Rightarrow> dump \<Rightarrow> articleStore \<Rightarrow> srcCache \<Rightarrow> string \<Rightarrow> dom \<Rightarrow> nat
     \<Rightarrow> exception + (string list \<times> dom \<times> srcCache)" where
  "treatImage E dmp store srcCache aId d img =
     (let imageNodeClass = (case getAttribute d img ''class'' of None \<Rightarrow> [] | Some c \<Rightarrow> c);
          src0 = getAttribute d img ''src''
      in if (\<not> nopic dmp
               \<or> containsText ''mwe-math-fallback-image-inline'' imageNodeClass
               \<or> getAttribute d img ''typeof'' = Some ''mw:Extension/math'')
            \<and> truthy src0 \<and> \<not> prefix ''./Special:FilePath/'' (the src0)
         then
           (case parentNode (nodeAt d img) of
              None \<Rightarrow> Inl TypeError
            | Some linkNode \<Rightarrow>
                (let d1 =
                   (if tagName (nodeAt d linkNode) = ''A'' then
                      (let href = (case getAttribute d linkNode ''href'' of
                                     None \<Rightarrow> []
                                   | Some h \<Rightarrow> h);
                           t = extractPageTitleFromHref E href;
                           keepLink = (truthy t \<and> store (the t) \<noteq> None)
                       in if \<not> keepLink then
                            (case parentNode (nodeAt d linkNode) of
                               Some p \<Rightarrow> replaceChild d p img linkNode
                             | None \<Rightarrow> deleteNode d img)
                          else d)
                    else d)
                 in andThen (getFullUrl E (getAttribute d1 img ''src'')) (\<lambda>src.
                      (let slashesInUrl = length (split CHR ''/'' aId) - 1;
                           upStr = concat (replicate (slashesInUrl + 1) ''../'');
                           newSrc = (case getMediaBase E src True of
                                       Inl e \<Rightarrow> None
                                     | Inr b \<Rightarrow> Some (upStr @ ''I'' @ ''/'' @ b))
                       in if truthy newSrc then
                            (let s1 = recordUrl src ([], srcCache);
                                 d2 = setAttribute d1 img ''src'' (the newSrc);
                                 d3 = removeAttribute d2 img ''resource'';
                                 d4 = removeAttribute d3 img ''srcset''
                             in Inr (fst s1, d4, snd s1))
                          else Inr ([], deleteNode d1 img, srcCache)))))
         else Inr ([], deleteNode d img, srcCache))"

text \<open>The two loops of \<open>treatMedias\<close> over the videos and the images found at the start.\<close>

fun treatVideos ::
  "mediaEnv \<Rightarrow> dump \<Rightarrow> string \<Rightarrow> nat list \<Rightarrow> string list \<times> dom \<times> srcCache
     \<Rightarrow> exception + (string list \<times> dom \<times> srcCache)" where
  "treatVideos E dmp aId [] s = Inr s"
| "treatVideos E dmp aId (videoEl # videos) (mediaDependencies, d, srcCache) =
     andThen (treatVideo E dmp srcCache aId d videoEl) (\<lambda>(ret, d', srcCache').
       case ret of
         None \<Rightarrow> Inl TypeError
       | Some deps \<Rightarrow> treatVideos E dmp aId videos (mediaDependencies @ deps, d', srcCache'))"

fun treatImages ::
  "mediaEnv \<Rightarrow> dump \<Rightarrow> articleStore \<Rightarrow> string \<Rightarrow> nat list \<Rightarrow> string list \<times> dom \<times> srcCache
     \<Rightarrow> exception + (string list \<times> dom \<times> srcCache)" where
  "treatImages E dmp store aId [] s = Inr s"
| "treatImages E dmp store aId (imgEl # imgs) (mediaDependencies, d, srcCache) =
     andThen (treatImage E dmp store srcCache aId d imgEl) (\<lambda>(deps, d', srcCache').
       treatImages E dmp store aId imgs (mediaDependencies @ deps, d', srcCache'))"

text \<open>\<open>treatMedias\<close>: the result is \<open>{ doc, mediaDependencies }\<close>.\<close>

definition treatMedias ::
  "mediaEnv \<Rightarrow> dump \<Rightarrow> articleStore \<Rightarrow> string \<Rightarrow> dom \<Rightarrow> exception + (dom \<times> string list)" where
  "treatMedias E dmp store aId parsoidDoc =
     (let imgs = getElementsByTagName parsoidDoc ''IMG'';
          videos = getElementsByTagName parsoidDoc ''VIDEO''
      in andThen (treatVideos E dmp aId videos ([], parsoidDoc, {})) (\<lambda>(deps1, d1, cache1).
         andThen (treatImages E dmp store aId imgs (deps1, d1, cache1)) (\<lambda>(deps2, d2, cache2).
         andThen (improveImageFrames E d2) (\<lambda>d3. Inr (d3, deps2)))))"

subsection \<open>An instance of the media pass's parameters\<close>

text \<open>
  For the examples: \<open>getFullUrl\<close> raises on \<open>null\<close>, as URL parsing does, and
  completes a protocol-relative or host-relative reference; \<open>getMediaBase\<close> takes the
  last path segment; \<open>toNumber\<close> reads decimal numerals; a link \<open>./Title\<close> names the
  page \<open>Title\<close>; the frames are left as they are.
\<close>

definition sampleGetFullUrl :: "string option \<Rightarrow> exception + string" where
  "sampleGetFullUrl v =
     (case v of
        None \<Rightarrow> Inl TypeError
      | Some u \<Rightarrow>
          Inr (if prefix ''//'' u then ''https:'' @ u
               else if prefix ''http'' u then u
               else ''https://en.wikipedia.org'' @ u))"

definition sampleGetMediaBase :: "string \<Rightarrow> bool \<Rightarrow> exception + string" where
  "sampleGetMediaBase u escape = Inr (last (split CHR ''/'' u))"

definition sampleToNumber :: "string \<Rightarrow> jsnumber" where
  "sampleToNumber s = (if s \<noteq> [] \<and> list_all isDigitOrDot s then numberOfDecimal s else NaN)"

definition sampleExtractPageTitle :: "string \<Rightarrow> string option" where
  "sampleExtractPageTitle href = (if prefix ''./'' href then Some (drop 2 href) else None)"

definition sampleEnv :: mediaEnv where
  "sampleEnv =
     \<lparr>getFullUrl = sampleGetFullUrl, getMediaBase = sampleGetMediaBase,
      toNumber = sampleToNumber, extractPageTitleFromHref = sampleExtractPageTitle,
      improveImageFrames = Inr\<rparr>"

definition sampleDump :: dump where
  "sampleDump = \<lparr>nopic = False, novid = False, nodet = False\<rparr>"

text \<open>The document \<open><html><body><video></video></body></html>\<close>.\<close>

definition sampleBareVideo :: dom where
  "sampleBareVideo =
     [\<lparr>nodeType = 9, tagName = [], attributes = [], parentNode = None, childNodes = [1]\<rparr>,
      \<lparr>nodeType = 1, tagName = ''HTML'', attributes = [], parentNode = Some 0, childNodes = [2]\<rparr>,
      \<lparr>nodeType = 1, tagName = ''BODY'', attributes = [], parentNode = Some 1, childNodes = [3]\<rparr>,
      \<lparr>nodeType = 1, tagName = ''VIDEO'', attributes = [], parentNode = Some 2, childNodes = []\<rparr>]"

text \<open>
  A document with a video that has a poster and one source, an image inside a link
  to a page that is not mirrored, and a second image; both images show the poster.
\<close>

definition sampleMedia :: dom where
  "sampleMedia =
     [\<lparr>nodeType = 9, tagName = [], attributes = [], parentNode = None, childNodes = [1]\<rparr>,
      \<lparr>nodeType = 1, tagName = ''HTML'', attributes = [], parentNode = Some 0, childNodes = [2]\<rparr>,
      \<lparr>nodeType = 1, tagName = ''BODY'', attributes = [], parentNode = Some 1, childNodes = [3, 5, 7]\<rparr>,
      \<lparr>nodeType = 1, tagName = ''VIDEO'',
       attributes = [(''poster'', ''//upload.wikimedia.org/a/Clip.jpg'')],
       parentNode = Some 2, childNodes = [4]\<rparr>,
      \<lparr>nodeType = 1, tagName = ''SOURCE'',
       attributes = [(''src'', ''//upload.wikimedia.org/a/Clip.webm'')],
       parentNode = Some 3, childNodes = []\<rparr>,
      \<lparr>nodeType = 1, tagName = ''A'', attributes = [(''href'', ''./Unknown'')],
       parentNode = Some 2, childNodes = [6]\<rparr>,
      \<lparr>nodeType = 1, tagName = ''IMG'',
       attributes = [(''src'', ''//upload.wikimedia.org/a/Clip.jpg'')],
       parentNode = Some 5, childNodes = []\<rparr>,
      \<lparr>nodeType = 1, tagName = ''IMG'',
       attributes = [(''src'', ''//upload.wikimedia.org/a/Clip.jpg'')],
       parentNode = Some 2, childNodes = []\<rparr>]"

section \<open>Properties of the Downloader\<close>







lemma errHandler_max:
  "maxActiveRequests (snd (errHandler d e)) =
     (if status e = Some 429 then newMaxActiveRequests (maxActiveRequests d) else maxActiveRequests d)"
  by (simp add: errHandler_def)





lemma run_append: "run U (as @ bs) st = run U bs (run U as st)"
  by (induction as arbitrary: st) simp_all



subsection \<open>Decimal numbers and splitting\<close>

lemma digits_table:
  "list_all (\<lambda>n. digitValue (digitChar n) = n \<and> isDigit (digitChar n) \<and> digitChar n \<noteq> CHR ''_'') [0..<10]"
  by code_simp

lemma digitChar_props:
  assumes "n < 10"
  shows "digitValue (digitChar n) = n" "isDigit (digitChar n)" "digitChar n \<noteq> CHR ''_''"
  using digits_table assms by (auto simp: list_all_iff)

lemma natOfDigits_snoc: "natOfDigits (s @ [c]) = 10 * natOfDigits s + digitValue c"
  by (simp add: natOfDigits_def)

lemma natOfDigits_stringOfNat: "natOfDigits (stringOfNat n) = n"
proof (induction n rule: stringOfNat.induct)
  case (1 n)
  show ?case
  proof (cases "n < 10")
    case True
    then show ?thesis
      by (subst stringOfNat.simps) (simp add: natOfDigits_def digitChar_props)
  next
    case False
    then have "natOfDigits (stringOfNat n) = 10 * natOfDigits (stringOfNat (n div 10)) + digitValue (digitChar (n mod 10))"
      by (subst stringOfNat.simps) (simp add: natOfDigits_snoc)
    with 1 False show ?thesis by (simp add: digitChar_props)
  qed
qed

lemma stringOfNat_inj: "stringOfNat m = stringOfNat n \<Longrightarrow> m = n"
  by (metis natOfDigits_stringOfNat)

lemma stringOfNat_digits: "c \<in> set (stringOfNat n) \<Longrightarrow> isDigit c \<and> c \<noteq> CHR ''_''"
proof (induction n rule: stringOfNat.induct)
  case (1 n)
  show ?case
  proof (cases "n < 10")
    case True
    with 1(2) show ?thesis by (subst (asm) stringOfNat.simps) (simp add: digitChar_props)
  next
    case False
    with 1 show ?thesis
      by (subst (asm) (2) stringOfNat.simps) (auto simp add: digitChar_props)
  qed
qed

lemma stringOfNat_nonempty: "stringOfNat n \<noteq> []"
  by (subst stringOfNat.simps) simp


subsection \<open>The URL prefix table\<close>

lemma setEntry_new: "k \<notin> fst ` set es \<Longrightarrow> setEntry es k v = es @ [(k, v)]"
  by (induction es) auto

lemma cacheInv_keys: "cacheInv es \<Longrightarrow> fst ` set es = stringOfNat ` {1..<Suc (length es)}"
proof -
  assume "cacheInv es"
  then have "set (map fst es) = set (map stringOfNat [1..<Suc (length es)])"
    by (simp add: cacheInv_def)
  then show ?thesis by (simp only: set_map set_upt)
qed

lemma cacheInv_set:
  assumes "cacheInv es" "find (\<lambda>(cacheId, value). value = v) es = None"
  shows "cacheInv (setEntry es (stringOfNat (Suc (length es))) v)"
proof -
  have "stringOfNat (Suc (length es)) \<notin> fst ` set es"
    using cacheInv_keys [OF assms(1)] by (auto dest: stringOfNat_inj)
  then have eq: "setEntry es (stringOfNat (Suc (length es))) v = es @ [(stringOfNat (Suc (length es)), v)]"
    by (rule setEntry_new)
  have "v \<notin> snd ` set es"
    using assms(2) by (auto simp: find_None_iff)
  with assms(1) show ?thesis
    unfolding eq cacheInv_def by simp
qed

lemma serializeUrl_cacheInv:
  "cacheInv (urlPartCache d) \<Longrightarrow> cacheInv (urlPartCache (snd (serializeUrl U d url)))"
  by (auto simp: serializeUrl_def Let_def cacheInv_set split: option.splits)

lemma getJSONCb_cache: "urlPartCache (snd (getJSONCb d ws)) = urlPartCache d"
  by (induction d ws rule: getJSONCb.induct) (auto split: reply.splits)

lemma downloadImage_cache: "urlPartCache (state (downloadImage U d s3 url upstream)) = urlPartCache d"
  by (simp add: downloadImage_def Let_def errHandler_def split: reply.splits option.splits sum.splits)

lemma getContentCb_cache: "urlPartCache (state (getContentCb U d s3 url upstream)) = urlPartCache d"
  by (simp add: getContentCb_def downloadImage_cache Let_def errHandler_def split: reply.splits sum.splits)

lemma step_cacheInv:
  assumes "cacheInv (urlPartCache (fst st))"
  shows "cacheInv (urlPartCache (fst (step U a st)))"
proof (cases st)
  case (Pair d s3)
  show ?thesis
  proof (cases a)
    case ClaimRequest
    with Pair assms show ?thesis by (simp add: claimRequest_def)
  next
    case ReleaseRequest
    with Pair assms show ?thesis by (simp add: releaseRequest_def)
  next
    case (GetJSONCbReply w)
    with Pair assms show ?thesis by (simp only: step.simps fst_conv getJSONCb_cache)
  next
    case (GetContentCb url upstream)
    with Pair assms show ?thesis by (simp only: step.simps fst_conv Let_def getContentCb_cache)
  next
    case (SerializeUrl url)
    with Pair assms show ?thesis by (simp add: serializeUrl_cacheInv)
  qed
qed

lemma run_cacheInv:
  "cacheInv (urlPartCache (fst st)) \<Longrightarrow> cacheInv (urlPartCache (fst (run U as st)))"
  by (induction as arbitrary: st) (simp_all add: step_cacheInv)

lemma find_distinct_value:
  "distinct (map snd es) \<Longrightarrow> (k, v) \<in> set es \<Longrightarrow> find (\<lambda>(cacheId, value). value = v) es = Some (k, v)"
  by (induction es) (auto simp: rev_image_eqI)

lemma split_nonempty: "split sep s \<noteq> []"
  by (induction s) (auto split: list.splits)

lemma join_split: "join [sep] (split sep s) = s"
proof (induction s)
  case Nil
  then show ?case by simp
next
  case (Cons c s)
  show ?case
  proof (cases "c = sep")
    case True
    with Cons split_nonempty [of sep s] show ?thesis
      by (cases "split sep s") auto
  next
    case False
    with Cons split_nonempty [of sep s] show ?thesis
      by (cases "split sep s"; cases "tl (split sep s)") auto
  qed
qed

lemma split_at_first: "sep \<notin> set a \<Longrightarrow> split sep (a @ sep # b) = a # split sep b"
  by (induction a) auto

text \<open>
  Claim C9, as amended. Let \<open>x\<close> be \<open>_id_path\<close> where \<open>id\<close> is registered with
  the prefix \<open>cachedPart\<close> in the table of a Downloader that a run has reached. If the
  URL parser reports \<open>path\<close> as the path of \<open>cachedPart + path\<close>, and removing the
  first occurrence of \<open>path\<close> from that URL leaves \<open>cachedPart\<close>, then
  \<open>serializeUrl(deserializeUrl(x))\<close> is \<open>x\<close> and the table is unchanged.
\<close>

theorem serializeUrl_deserializeUrl:
  assumes reach: "d = fst (run U as (newDownloader spd c, s3))"
      and reg: "map_of (urlPartCache d) cacheId = Some cachedPart"
      and parsed: "urlPath U (cachedPart @ path) = Some path"
      and first: "removeFirst path (cachedPart @ path) = cachedPart"
  shows "serializeUrl U d (deserializeUrl d (''_'' @ cacheId @ ''_'' @ path))
           = (''_'' @ cacheId @ ''_'' @ path, d)"
proof -
  have "cacheInv (urlPartCache (fst (newDownloader spd c, s3)))"
    by (simp add: cacheInv_def newDownloader_def)
  then have inv: "cacheInv (urlPartCache d)"
    unfolding reach by (rule run_cacheInv)
  have mem: "(cacheId, cachedPart) \<in> set (urlPartCache d)"
    using reg by (rule map_of_SomeD)
  then have "cacheId \<in> fst ` set (urlPartCache d)"
    by force
  then obtain n where "cacheId = stringOfNat n"
    using cacheInv_keys [OF inv] by auto
  then have nound: "CHR ''_'' \<notin> set cacheId"
    using stringOfNat_digits by blast
  have found: "find (\<lambda>(cacheId, value). value = cachedPart) (urlPartCache d) = Some (cacheId, cachedPart)"
    using inv mem by (simp add: cacheInv_def find_distinct_value)
  have "split CHR ''_'' (''_'' @ cacheId @ ''_'' @ path) = [] # cacheId # split CHR ''_'' path"
    using split_at_first [OF nound, of path] by simp
  then have de: "deserializeUrl d (''_'' @ cacheId @ ''_'' @ path) = cachedPart @ path"
    using reg join_split [of "CHR ''_''" path] by (simp add: deserializeUrl_def orUndefined_def)
  show ?thesis
    unfolding de by (simp add: serializeUrl_def parsed first found orNull_def)
qed

theorem serializeUrl_deserializeUrl_witness:
  "map_of (urlPartCache sampleDownloader) ''1'' = Some ''https://en.wikipedia.org''
   \<and> urlPath sampleUtil (''https://en.wikipedia.org'' @ ''/w/api.php?titles=A_B'') = Some ''/w/api.php?titles=A_B''
   \<and> removeFirst ''/w/api.php?titles=A_B'' (''https://en.wikipedia.org'' @ ''/w/api.php?titles=A_B'')
        = ''https://en.wikipedia.org''
   \<and> serializeUrl sampleUtil sampleDownloader
         (deserializeUrl sampleDownloader (''_'' @ ''1'' @ ''_'' @ ''/w/api.php?titles=A_B''))
        = (''_'' @ ''1'' @ ''_'' @ ''/w/api.php?titles=A_B'', sampleDownloader)"
proof -
  have cache: "urlPartCache sampleDownloader = [(''1'', ''https://en.wikipedia.org'')]"
    by (simp add: sampleDownloader_def serializeUrl_def sampleUtil_def sampleUrlPath_def
          newDownloader_def orNull_def Let_def stringOfNat.simps digitChar_def)
  have reg: "map_of (urlPartCache sampleDownloader) ''1'' = Some ''https://en.wikipedia.org''"
    by (simp add: cache)
  have parsed: "urlPath sampleUtil (''https://en.wikipedia.org'' @ ''/w/api.php?titles=A_B'')
                  = Some ''/w/api.php?titles=A_B''"
    by (simp add: sampleUtil_def sampleUrlPath_def)
  have first: "removeFirst ''/w/api.php?titles=A_B'' (''https://en.wikipedia.org'' @ ''/w/api.php?titles=A_B'')
                 = ''https://en.wikipedia.org''"
    by simp
  from serializeUrl_deserializeUrl [OF sampleDownloader_def reg parsed first] reg parsed first
  show ?thesis by (intro conjI)
qed

text \<open>
  Claim C9 as stated fails: \<open>_1\<close> starts with \<open>_\<close> and its id is registered, but every
  result of \<open>serializeUrl\<close> has a second \<open>_\<close> after the id.
\<close>

theorem serializeUrl_deserializeUrl_counterexample:
  "prefix ''_'' ''_1''
   \<and> map_of (urlPartCache sampleDownloader) ''1'' = Some ''https://en.wikipedia.org''
   \<and> deserializeUrl sampleDownloader ''_1'' = ''https://en.wikipedia.org''
   \<and> fst (serializeUrl sampleUtil sampleDownloader (deserializeUrl sampleDownloader ''_1'')) = ''_2_/''
   \<and> fst (serializeUrl sampleUtil sampleDownloader (deserializeUrl sampleDownloader ''_1'')) \<noteq> ''_1''"
proof -
  have cache: "urlPartCache sampleDownloader = [(''1'', ''https://en.wikipedia.org'')]"
    by (simp add: sampleDownloader_def serializeUrl_def sampleUtil_def sampleUrlPath_def
          newDownloader_def orNull_def Let_def stringOfNat.simps digitChar_def)
  have de: "deserializeUrl sampleDownloader ''_1'' = ''https://en.wikipedia.org''"
    by (simp add: deserializeUrl_def cache orUndefined_def)
  have ser: "fst (serializeUrl sampleUtil sampleDownloader ''https://en.wikipedia.org'') = ''_2_/''"
    by (simp add: serializeUrl_def cache sampleUtil_def sampleUrlPath_def orNull_def Let_def
          stringOfNat.simps digitChar_def)
  show ?thesis by (simp add: cache de ser)
qed

subsection \<open>Rate adaptation\<close>


subsection \<open>Retries\<close>

text \<open>
  Claim C2 on \<open>getJSON\<close>: a 500 response and a client-side timeout both satisfy the
  retry predicate, yet \<open>getJSONCb\<close> hands neither to its handler, so the call is not
  retried (the second feed is never requested), the promise never settles and the slot
  is never released.
\<close>

theorem getJSON_error_not_retried:
  "retryIf \<lparr>code = None, status = Some 500\<rparr>
   \<and> getJSON (newDownloader 1 []) ''https://en.wikipedia.org/w/api.php?action=query''
        [[Http \<lparr>httpStatus = 500, etag = None, contentType = None, body = []\<rparr>],
         [Http \<lparr>httpStatus = 200, etag = None, contentType = None, body = ''{}''\<rparr>]]
       = (Pending, (newDownloader 1 [])\<lparr>activeRequests := 1\<rparr>)
   \<and> retryIf \<lparr>code = Some ''ECONNABORTED'', status = None\<rparr>
   \<and> getJSON (newDownloader 1 []) ''https://en.wikipedia.org/w/api.php?action=query''
        [[NoResponse (Some ''ECONNABORTED'')],
         [Http \<lparr>httpStatus = 200, etag = None, contentType = None, body = ''{}''\<rparr>]]
       = (Pending, (newDownloader 1 [])\<lparr>activeRequests := 1\<rparr>)"
  by (simp add: retryIf_def getJSON_def deserializeUrl_def claimRequest_def newDownloader_def
        failAfter_def axiosGet_def defaultValidateStatus_def)

subsection \<open>Images and the blob cache\<close>










section \<open>Properties of the Renderer\<close>






















section \<open>Properties of the media queue\<close>
















section \<open>Properties of the DOM rewriter\<close>

subsection \<open>Media dependencies of one article\<close>

text \<open>
  Recording a URL keeps three facts about the list pushed so far and the table: the list
  has no repetition, it holds nothing the table held at the start, and the table is what
  it was at the start together with the list.
\<close>

lemma recordUrl_keeps:
  assumes "distinct (fst s)" "set (fst s) \<inter> c = {}" "snd s = c \<union> set (fst s)"
  shows "distinct (fst (recordUrl u s))" "set (fst (recordUrl u s)) \<inter> c = {}"
        "snd (recordUrl u s) = c \<union> set (fst (recordUrl u s))"
  using assms by (auto simp: recordUrl_def)

lemma recordUrl_start:
  "distinct (fst (recordUrl u ([], c)))" "set (fst (recordUrl u ([], c))) \<inter> c = {}"
  "snd (recordUrl u ([], c)) = c \<union> set (fst (recordUrl u ([], c)))"
  by (auto simp: recordUrl_def)

lemma treatVideo_shape:
  assumes "treatVideo E dmp c aId d v = Inr (Some deps, d', c')"
  shows "(deps = [] \<and> c' = c)
       \<or> (\<exists>pu su. deps = fst (recordUrl su (recordUrl pu ([], c)))
                 \<and> c' = snd (recordUrl su (recordUrl pu ([], c))))"
  using assms
  by (auto simp add: treatVideo_def andThen_def Let_def
           split: sum.splits if_splits list.splits)

lemma treatVideo_deps:
  assumes "treatVideo E dmp c aId d v = Inr (Some deps, d', c')"
  shows "distinct deps \<and> set deps \<inter> c = {} \<and> c' = c \<union> set deps"
proof -
  from treatVideo_shape [OF assms] show ?thesis
  proof
    assume "deps = [] \<and> c' = c"
    then show ?thesis by simp
  next
    assume "\<exists>pu su. deps = fst (recordUrl su (recordUrl pu ([], c)))
                 \<and> c' = snd (recordUrl su (recordUrl pu ([], c)))"
    then obtain pu su where e: "deps = fst (recordUrl su (recordUrl pu ([], c)))"
        "c' = snd (recordUrl su (recordUrl pu ([], c)))"
      by blast
    show ?thesis
      unfolding e using recordUrl_keeps [of "recordUrl pu ([], c)" c su, OF recordUrl_start] by blast
  qed
qed

lemma treatImage_shape:
  assumes "treatImage E dmp store c aId d img = Inr (deps, d', c')"
  shows "(deps = [] \<and> c' = c) \<or> (\<exists>u. deps = fst (recordUrl u ([], c)) \<and> c' = snd (recordUrl u ([], c)))"
  using assms
  by (auto simp add: treatImage_def andThen_def Let_def
           split: sum.splits if_splits option.splits)

lemma treatImage_deps:
  assumes "treatImage E dmp store c aId d img = Inr (deps, d', c')"
  shows "distinct deps \<and> set deps \<inter> c = {} \<and> c' = c \<union> set deps"
  using treatImage_shape [OF assms] recordUrl_start by (metis Un_empty_right distinct.simps(1) inf_bot_left set_empty2)


lemma treatVideos_distinct:
  "treatVideos E dmp aId videos (deps, d, c) = Inr (deps', d', c') \<Longrightarrow>
   distinct deps \<Longrightarrow> set deps \<subseteq> c \<Longrightarrow> distinct deps' \<and> set deps' \<subseteq> c'"
proof (induction videos arbitrary: deps d c)
  case Nil
  then show ?case by simp
next
  case (Cons v videos)
  from Cons.prems(1) obtain ds d1 c1 where
    tv: "treatVideo E dmp c aId d v = Inr (Some ds, d1, c1)"
    and rest: "treatVideos E dmp aId videos (deps @ ds, d1, c1) = Inr (deps', d', c')"
    by (auto simp add: andThen_def split: sum.splits option.splits)
  from treatVideo_deps [OF tv] have "distinct ds" "set ds \<inter> c = {}" "c1 = c \<union> set ds"
    by simp_all
  with Cons.prems(2,3) have "distinct (deps @ ds)" "set (deps @ ds) \<subseteq> c1"
    by auto
  with Cons.IH [OF rest] show ?case by simp
qed

lemma treatImages_distinct:
  "treatImages E dmp store aId imgs (deps, d, c) = Inr (deps', d', c') \<Longrightarrow>
   distinct deps \<Longrightarrow> set deps \<subseteq> c \<Longrightarrow> distinct deps' \<and> set deps' \<subseteq> c'"
proof (induction imgs arbitrary: deps d c)
  case Nil
  then show ?case by simp
next
  case (Cons img imgs)
  from Cons.prems(1) obtain ds d1 c1 where
    ti: "treatImage E dmp store c aId d img = Inr (ds, d1, c1)"
    and rest: "treatImages E dmp store aId imgs (deps @ ds, d1, c1) = Inr (deps', d', c')"
    by (auto simp add: andThen_def split: sum.splits)
  from treatImage_deps [OF ti] have "distinct ds" "set ds \<inter> c = {}" "c1 = c \<union> set ds"
    by simp_all
  with Cons.prems(2,3) have "distinct (deps @ ds)" "set (deps @ ds) \<subseteq> c1"
    by auto
  with Cons.IH [OF rest] show ?case by simp
qed

text \<open>
  Claim C10. For every document for which the media pass of one article returns, the
  list of media dependencies it returns holds each URL at most once: the loop over the
  videos and the loop over the images thread one table \<open>srcCache\<close>, and a URL is
  pushed only when the table does not hold it yet.
\<close>

theorem treatMedias_no_duplicates:
  assumes "treatMedias E dmp store aId parsoidDoc = Inr (doc, mediaDependencies)"
  shows "distinct mediaDependencies"
proof -
  from assms obtain deps1 d1 c1 d2 c2 where
    v: "treatVideos E dmp aId (getElementsByTagName parsoidDoc ''VIDEO'') ([], parsoidDoc, {})
          = Inr (deps1, d1, c1)"
    and i: "treatImages E dmp store aId (getElementsByTagName parsoidDoc ''IMG'') (deps1, d1, c1)
          = Inr (mediaDependencies, d2, c2)"
    by (auto simp add: treatMedias_def andThen_def Let_def split: sum.splits)
  from treatVideos_distinct [OF v] have "distinct deps1 \<and> set deps1 \<subseteq> c1"
    by simp
  with treatImages_distinct [OF i] show ?thesis
    by simp
qed

text \<open>
  The pass on the sample document: the poster of the video is also the source of both
  images, and is returned once.
\<close>

lemma sample_media_run:
  "treatMedias sampleEnv sampleDump Map.empty ''Article'' sampleMedia
     = Inr ([\<lparr>nodeType = 9, tagName = [], attributes = [], parentNode = None, childNodes = [1]\<rparr>,
       \<lparr>nodeType = 1, tagName = ''HTML'', attributes = [], parentNode = Some 0, childNodes = [2]\<rparr>,
       \<lparr>nodeType = 1, tagName = ''BODY'', attributes = [], parentNode = Some 1, childNodes = [3, 6, 7]\<rparr>,
       \<lparr>nodeType = 1, tagName = ''VIDEO'',
          attributes = [(''poster'', ''../I/Clip.jpg''), (''controls'', ''40'')],
          parentNode = Some 2, childNodes = [4]\<rparr>,
       \<lparr>nodeType = 1, tagName = ''SOURCE'',
          attributes = [(''src'', ''../I/Clip.webm'')], parentNode = Some 3, childNodes = []\<rparr>,
       \<lparr>nodeType = 1, tagName = ''A'',
          attributes = [(''href'', ''./Unknown'')], parentNode = None, childNodes = []\<rparr>,
       \<lparr>nodeType = 1, tagName = ''IMG'',
          attributes = [(''src'', ''../I/Clip.jpg'')], parentNode = Some 2, childNodes = []\<rparr>,
       \<lparr>nodeType = 1, tagName = ''IMG'',
          attributes = [(''src'', ''../I/Clip.jpg'')], parentNode = Some 2, childNodes = []\<rparr>],
      [''https://upload.wikimedia.org/a/Clip.jpg'', ''https://upload.wikimedia.org/a/Clip.webm''])"
  by code_simp

theorem treatMedias_no_duplicates_witness:
  "treatMedias sampleEnv sampleDump Map.empty ''Article'' sampleMedia
     = Inr (projr (treatMedias sampleEnv sampleDump Map.empty ''Article'' sampleMedia))
   \<and> snd (projr (treatMedias sampleEnv sampleDump Map.empty ''Article'' sampleMedia))
       = [''https://upload.wikimedia.org/a/Clip.jpg'', ''https://upload.wikimedia.org/a/Clip.webm'']
   \<and> distinct (snd (projr (treatMedias sampleEnv sampleDump Map.empty ''Article'' sampleMedia)))"
proof -
  have r: "treatMedias sampleEnv sampleDump Map.empty ''Article'' sampleMedia
     = Inr (fst (projr (treatMedias sampleEnv sampleDump Map.empty ''Article'' sampleMedia)),
            snd (projr (treatMedias sampleEnv sampleDump Map.empty ''Article'' sampleMedia)))"
    unfolding sample_media_run by simp
  have deps: "snd (projr (treatMedias sampleEnv sampleDump Map.empty ''Article'' sampleMedia))
       = [''https://upload.wikimedia.org/a/Clip.jpg'', ''https://upload.wikimedia.org/a/Clip.webm'']"
    unfolding sample_media_run by simp
  have a: "treatMedias sampleEnv sampleDump Map.empty ''Article'' sampleMedia
     = Inr (projr (treatMedias sampleEnv sampleDump Map.empty ''Article'' sampleMedia))"
    unfolding sample_media_run by simp
  show ?thesis
    by (rule conjI [OF a conjI [OF deps treatMedias_no_duplicates [OF r]]])
qed

subsection \<open>A video without source\<close>

lemma sample_bare_video:
  "getElementsByTagName sampleBareVideo ''VIDEO'' = [3]"
  "getAttribute sampleBareVideo 3 ''poster'' = None"
  "children sampleBareVideo 3 = []"
  "nopic sampleDump = False" "novid sampleDump = False" "nodet sampleDump = False"
  by code_simp+

text \<open>
  Claim C7. A \<open>video\<close> element without \<open>source\<close> child and without poster, in a
  dump that keeps pictures, videos and details, is to be deleted by a media pass that
  completes. In the code \<open>videoSources[0]\<close> is then \<open>undefined\<close> and
  \<open>sourceEl.getAttribute\<close> raises, when \<open>getFullUrl\<close> has not raised on the absent
  poster before: whatever the functions taken from outside do, the pass on the document
  \<open><video></video>\<close> ends in an exception and returns no document.
\<close>

theorem treatMedias_video_without_source:
  "getAttribute sampleBareVideo 3 ''poster'' = None
   \<and> filter (\<lambda>c. tagName (nodeAt sampleBareVideo c) = ''SOURCE'') (children sampleBareVideo 3) = []
   \<and> (\<forall>E store. \<exists>e. treatMedias E sampleDump store ''Article'' sampleBareVideo = Inl e)
   \<and> treatMedias sampleEnv sampleDump Map.empty ''Article'' sampleBareVideo = Inl TypeError"
proof -
  have tv: "\<exists>e. treatVideo E sampleDump {} ''Article'' sampleBareVideo 3 = Inl e" for E
    by (cases "getFullUrl E None"; cases "getMediaBase E (projr (getFullUrl E None)) True")
       (simp_all add: treatVideo_def andThen_def Let_def sample_bare_video sortSources_def)
  have "\<exists>e. treatMedias E sampleDump store ''Article'' sampleBareVideo = Inl e" for E store
    using tv [of E] by (auto simp add: treatMedias_def Let_def sample_bare_video andThen_def)
  moreover have "treatMedias sampleEnv sampleDump Map.empty ''Article'' sampleBareVideo = Inl TypeError"
    by code_simp
  ultimately show ?thesis
    by (simp add: sample_bare_video)
qed

subsection \<open>Headings without content\<close>



end
